theory Spec2Isabelle
  imports Main "HOL-Library.Sublist" "HOL-Library.Word"
begin

unbundle bit_operations_syntax

section \<open>Python values\<close>

text \<open>
  A Python \<open>str\<close> is a sequence of Unicode code points, so \<open>len\<close>, slicing and
  \<open>in\<close> count code points, not bytes. The code points are natural numbers; an ASCII
  literal of the source is written \<open>ustr ''...''\<close>, any other code point by its number.
\<close>

type_synonym pystr = "nat list"

definition ustr :: "string \<Rightarrow> pystr" where
  "ustr s = map of_char s"

definition NL :: pystr where
  "NL = [10]"

text \<open>The exceptions that the modelled functions can raise.\<close>

datatype py_error = IndexError | KeyError | UnicodeEncodeError

subsection \<open>Case mappings\<close>

text \<open>
  \<open>str.lower\<close>, \<open>str.upper\<close> and \<open>str.title\<close> follow the Unicode character database,
  which is not part of the repository. On a string of ASCII code points they are the
  ASCII case mappings below; on any other string their result is taken from the
  parameter \<open>U\<close>, about which nothing is assumed.
\<close>

record unicode_db =
  lower_db :: "pystr \<Rightarrow> pystr"
  upper_db :: "pystr \<Rightarrow> pystr"
  title_db :: "pystr \<Rightarrow> pystr"

definition is_ascii :: "pystr \<Rightarrow> bool" where
  "is_ascii s = list_all (\<lambda>c. c < 128) s"

definition ascii_lower :: "nat \<Rightarrow> nat" where
  "ascii_lower c = (if 65 \<le> c \<and> c \<le> 90 then c + 32 else c)"

definition ascii_upper :: "nat \<Rightarrow> nat" where
  "ascii_upper c = (if 97 \<le> c \<and> c \<le> 122 then c - 32 else c)"

definition ascii_cased :: "nat \<Rightarrow> bool" where
  "ascii_cased c = ((65 \<le> c \<and> c \<le> 90) \<or> (97 \<le> c \<and> c \<le> 122))"

text \<open>
  Title case: a character that follows a cased character is lowercased, any other
  character is uppercased.
\<close>

fun ascii_title :: "bool \<Rightarrow> pystr \<Rightarrow> pystr" where
  "ascii_title prev [] = []"
| "ascii_title prev (c # cs) =
     (if prev then ascii_lower c else ascii_upper c) # ascii_title (ascii_cased c) cs"

definition py_lower :: "unicode_db \<Rightarrow> pystr \<Rightarrow> pystr" where
  "py_lower U s = (if is_ascii s then map ascii_lower s else lower_db U s)"

definition py_upper :: "unicode_db \<Rightarrow> pystr \<Rightarrow> pystr" where
  "py_upper U s = (if is_ascii s then map ascii_upper s else upper_db U s)"

definition py_title :: "unicode_db \<Rightarrow> pystr \<Rightarrow> pystr" where
  "py_title U s = (if is_ascii s then ascii_title False s else title_db U s)"

text \<open>A database for evaluation on ASCII inputs, where it is never consulted.\<close>

definition ascii_db :: unicode_db where
  "ascii_db = \<lparr>lower_db = (\<lambda>s. s), upper_db = (\<lambda>s. s), title_db = (\<lambda>s. s)\<rparr>"

subsection \<open>Whitespace, \<open>strip\<close>, \<open>split\<close>, \<open>join\<close>, \<open>in\<close>, slices\<close>

text \<open>The code points for which \<open>str.isspace\<close> holds.\<close>

definition py_isspace :: "nat \<Rightarrow> bool" where
  "py_isspace c =
     ((0x09 \<le> c \<and> c \<le> 0x0D) \<or> (0x1C \<le> c \<and> c \<le> 0x20) \<or> c = 0x85 \<or> c = 0xA0
      \<or> c = 0x1680 \<or> (0x2000 \<le> c \<and> c \<le> 0x200A) \<or> c = 0x2028 \<or> c = 0x2029
      \<or> c = 0x202F \<or> c = 0x205F \<or> c = 0x3000)"

definition py_strip :: "pystr \<Rightarrow> pystr" where
  "py_strip s = rev (dropWhile py_isspace (rev (dropWhile py_isspace s)))"

text \<open>
  \<open>s.split()\<close>: the maximal runs of non-whitespace, scanned left to right; \<open>cur\<close> is
  the token being read.
\<close>

fun split_loop :: "pystr \<Rightarrow> pystr \<Rightarrow> pystr list" where
  "split_loop cur [] = (if cur = [] then [] else [cur])"
| "split_loop cur (c # cs) =
     (if py_isspace c
      then (if cur = [] then split_loop [] cs else cur # split_loop [] cs)
      else split_loop (cur @ [c]) cs)"

definition py_split :: "pystr \<Rightarrow> pystr list" where
  "py_split s = split_loop [] s"

fun py_join :: "pystr \<Rightarrow> pystr list \<Rightarrow> pystr" where
  "py_join sep [] = []"
| "py_join sep [x] = x"
| "py_join sep (x # y # ys) = x @ sep @ py_join sep (y # ys)"

text \<open>\<open>needle in hay\<close> on strings: a scan for the first position where \<open>needle\<close> starts.\<close>

fun py_in :: "pystr \<Rightarrow> pystr \<Rightarrow> bool" where
  "py_in needle [] = (needle = [])"
| "py_in needle (h # hs) = (prefix needle (h # hs) \<or> py_in needle hs)"

text \<open>\<open>s[:n]\<close> for \<open>n \<ge> 0\<close> and \<open>s[-n:]\<close> for \<open>n > 0\<close>; both clamp at the ends of \<open>s\<close>.\<close>

definition slice_to :: "nat \<Rightarrow> 'a list \<Rightarrow> 'a list" where
  "slice_to n s = take n s"

definition slice_last :: "nat \<Rightarrow> 'a list \<Rightarrow> 'a list" where
  "slice_last n s = drop (length s - n) s"

text \<open>\<open>str(i)\<close> for an integer \<open>i\<close>: decimal digits, with a minus sign when negative.\<close>

fun digits :: "nat \<Rightarrow> pystr" where
  "digits n = (if n < 10 then [48 + n] else digits (n div 10) @ [48 + n mod 10])"

definition py_str_int :: "int \<Rightarrow> pystr" where
  "py_str_int i = (if i < 0 then 45 # digits (nat (- i)) else digits (nat i))"

section \<open>The archetype catalog\<close>

record archetype_def =
  description :: pystr
  symbol :: pystr
  quote :: pystr
  color :: pystr

definition ARCHETYPES :: "(pystr \<times> archetype_def) list" where
  "ARCHETYPES =
    [(ustr ''phoenix'',
      \<lparr>description = ustr ''Rising from ashes, transformed by fire'',
       symbol = [0xF8FF, 0xFC, 0xEE, 0x2022],
       quote = ustr ''What is to give light must endure burning. - Viktor Frankl'',
       color = ustr ''#ff6b6b''\<rparr>),
     (ustr ''alchemist'',
      \<lparr>description = ustr ''Transmuting pain into wisdom'',
       symbol = [0x201A, 0xF6, 0xF3, 0xD4, 0x220F, 0xE8],
       quote = ustr ''One does not become enlightened by imagining figures of light, but by making the darkness conscious. - Carl Jung'',
       color = ustr ''#4ecdc4''\<rparr>),
     (ustr ''warrior'',
      \<lparr>description = ustr ''Forged in battle, tempered by trials'',
       symbol = [0x201A, 0xF6, 0xEE, 0xD4, 0x220F, 0xE8],
       quote = ustr ''The wound is the place where the Light enters you. - Rumi'',
       color = ustr ''#ff9f43''\<rparr>),
     (ustr ''sage'',
      \<lparr>description = ustr ''Seeking truth through suffering'',
       symbol = [0xF8FF, 0xFC, 0xB6, 0xE2],
       quote = ustr ''The only true wisdom is in knowing you know nothing. - Socrates'',
       color = ustr ''#a8e6cf''\<rparr>),
     (ustr ''wanderer'',
      \<lparr>description = ustr ''Lost to find, broken to become whole'',
       symbol = [0xF8FF, 0xFC, 0xDF, 0x2260],
       quote = ustr ''Not all those who wander are lost. - J.R.R. Tolkien'',
       color = ustr ''#c7ceea''\<rparr>),
     (ustr ''architect'',
      \<lparr>description = ustr ''Building from ruins, designing destiny'',
       symbol = [0xF8FF, 0xFC, 0xE8, 0xF5, 0xD4, 0x220F, 0xE8],
       quote = ustr ''In the depth of winter, I finally learned that there was in me an invincible summer. - Albert Camus'',
       color = ustr ''#b2bec3''\<rparr>),
     (ustr ''mystic'',
      \<lparr>description = ustr ''Embracing the void to find the light'',
       symbol = [0xF8FF, 0xFC, 0xEE, 0xC6],
       quote = ustr ''The cave you fear to enter holds the treasure you seek. - Joseph Campbell'',
       color = ustr ''#dfe6e9''\<rparr>),
     (ustr ''rebel'',
      \<lparr>description = ustr ''Destroying to create, refusing to conform'',
       symbol = [0x201A, 0xF6, 0xB0],
       quote = ustr ''You must be ready to burn yourself in your own flame; how could you rise anew if you have not first become ashes? - Nietzsche'',
       color = ustr ''#fd79a8''\<rparr>)]"

text \<open>\<open>ARCHETYPES.get(k)\<close> and \<open>k in ARCHETYPES\<close>.\<close>

definition ARCHETYPES_get :: "pystr \<Rightarrow> archetype_def option" where
  "ARCHETYPES_get k = map_of ARCHETYPES k"

definition in_ARCHETYPES :: "pystr \<Rightarrow> bool" where
  "in_ARCHETYPES k = (k \<in> set (map fst ARCHETYPES))"

section \<open>Theme extraction\<close>

text \<open>
  \<open>extract_core_theme\<close>: the loop over \<open>themes\<close> returns at the first theme found in
  the lowercased text; after the loop, \<open>themes[0]\<close> raises \<open>IndexError\<close> on an empty
  list.
\<close>

fun core_theme_loop :: "pystr \<Rightarrow> pystr list \<Rightarrow> pystr option" where
  "core_theme_loop text_lower [] = None"
| "core_theme_loop text_lower (theme # rest) =
     (if py_in theme text_lower then Some theme else core_theme_loop text_lower rest)"

definition extract_core_theme :: "unicode_db \<Rightarrow> pystr \<Rightarrow> pystr list \<Rightarrow> py_error + pystr" where
  "extract_core_theme U text themes =
     (let text_lower = py_lower U text in
      case core_theme_loop text_lower themes of
        Some theme \<Rightarrow> Inr theme
      | None \<Rightarrow> (case themes of [] \<Rightarrow> Inl IndexError | t # _ \<Rightarrow> Inr t))"

definition theme_words :: "(pystr \<times> pystr list) list" where
  "theme_words =
    [(ustr ''loss'', [ustr ''lost'', ustr ''gone'', ustr ''ended'', ustr ''died'']),
     (ustr ''betrayal'', [ustr ''betrayed'', ustr ''trust'', ustr ''lied'', ustr ''deceived'']),
     (ustr ''failure'', [ustr ''failed'', ustr ''mistake'', ustr ''wrong'', ustr ''error'']),
     (ustr ''awakening'', [ustr ''realized'', ustr ''understood'', ustr ''saw'', ustr ''discovered'']),
     (ustr ''rebuilding'', [ustr ''built'', ustr ''created'', ustr ''started'', ustr ''began'']),
     (ustr ''transformation'', [ustr ''changed'', ustr ''became'', ustr ''transformed'', ustr ''evolved'']),
     (ustr ''freedom'', [ustr ''free'', ustr ''liberated'', ustr ''released'', ustr ''escaped'']),
     (ustr ''integration'', [ustr ''whole'', ustr ''complete'', ustr ''integrated'', ustr ''unified''])]"

text \<open>\<open>any(keyword in text_lower for keyword in keywords)\<close>.\<close>

fun any_keyword :: "pystr \<Rightarrow> pystr list \<Rightarrow> bool" where
  "any_keyword text_lower [] = False"
| "any_keyword text_lower (keyword # rest) =
     (if py_in keyword text_lower then True else any_keyword text_lower rest)"

text \<open>The loop over \<open>theme_words.items()\<close>; \<open>themes\<close> is the list being appended to.\<close>

fun themes_loop :: "pystr \<Rightarrow> (pystr \<times> pystr list) list \<Rightarrow> pystr list \<Rightarrow> pystr list" where
  "themes_loop text_lower [] themes = themes"
| "themes_loop text_lower ((theme, keywords) # rest) themes =
     themes_loop text_lower rest
       (if any_keyword text_lower keywords then themes @ [theme] else themes)"

definition extract_themes :: "unicode_db \<Rightarrow> pystr \<Rightarrow> pystr list" where
  "extract_themes U text =
     (let text_lower = py_lower U text in
      slice_to 3 (themes_loop text_lower theme_words []))"

section \<open>The transformation hash\<close>

text \<open>
  \<open>str.encode()\<close>: UTF-8. A surrogate code point (U+D800 to U+DFFF) cannot be
  encoded and raises \<open>UnicodeEncodeError\<close>; code points above U+10FFFF do not occur in a
  Python string and are given the same result.
\<close>

type_synonym byte = "8 word"

definition utf8_char :: "nat \<Rightarrow> py_error + byte list" where
  "utf8_char c =
     (if c < 0x80 then Inr [of_nat c]
      else if c < 0x800 then Inr [of_nat (0xC0 + c div 64), of_nat (0x80 + c mod 64)]
      else if 0xD800 \<le> c \<and> c \<le> 0xDFFF then Inl UnicodeEncodeError
      else if c < 0x10000 then
        Inr [of_nat (0xE0 + c div 4096), of_nat (0x80 + (c div 64) mod 64),
             of_nat (0x80 + c mod 64)]
      else if c < 0x110000 then
        Inr [of_nat (0xF0 + c div 262144), of_nat (0x80 + (c div 4096) mod 64),
             of_nat (0x80 + (c div 64) mod 64), of_nat (0x80 + c mod 64)]
      else Inl UnicodeEncodeError)"

fun py_encode :: "pystr \<Rightarrow> py_error + byte list" where
  "py_encode [] = Inr []"
| "py_encode (c # cs) =
     (case utf8_char c of
        Inl e \<Rightarrow> Inl e
      | Inr bs \<Rightarrow> (case py_encode cs of Inl e \<Rightarrow> Inl e | Inr rest \<Rightarrow> Inr (bs @ rest)))"

subsection \<open>The digest\<close>

text \<open>
  \<open>hashlib.sha256(b).hexdigest()\<close> belongs to the Python library, not to the
  repository. It is the parameter \<open>H\<close>, a function from the bytes to the string of
  hexadecimal digits, about which nothing is assumed. \<open>hex_dump\<close> is a stand-in used
  only where a concrete function is needed to evaluate an example: it writes each byte as
  two lowercase hexadecimal digits.
\<close>

type_synonym hexdigest = "byte list \<Rightarrow> pystr"

definition hex_digit :: "nat \<Rightarrow> nat" where
  "hex_digit n = (if n < 10 then 48 + n else 87 + n)"

definition hex_dump :: hexdigest where
  "hex_dump bs = concat (map (\<lambda>b. [hex_digit (unat b div 16), hex_digit (unat b mod 16)]) bs)"

definition generate_transformation_hash ::
    "hexdigest \<Rightarrow> pystr \<Rightarrow> pystr \<Rightarrow> pystr \<Rightarrow> py_error + pystr" where
  "generate_transformation_hash H collapse build now =
     (let combined = slice_to 50 collapse @ slice_to 50 build @ slice_to 50 now in
      case py_encode combined of
        Inl e \<Rightarrow> Inl e
      | Inr bytes \<Rightarrow> Inr (slice_to 12 (H bytes)))"

section \<open>Reflexion DNA\<close>

record dna =
  dna_collapse_root :: pystr
  dna_emergent_trait :: pystr
  dna_final_state :: pystr
  dna_archetype :: pystr
  dna_theme_chain :: "pystr list"
  dna_transformation_hash :: pystr

text \<open>The three theme lists that \<open>generate_reflexion_dna\<close> passes to \<open>extract_core_theme\<close>.\<close>

definition collapse_themes :: "pystr list" where
  "collapse_themes =
     [ustr ''control'', ustr ''identity'', ustr ''trust'', ustr ''purpose'', ustr ''belonging'',
      ustr ''certainty'']"

definition build_themes :: "pystr list" where
  "build_themes =
     [ustr ''resilience'', ustr ''wisdom'', ustr ''compassion'', ustr ''strength'', ustr ''clarity'',
      ustr ''freedom'']"

definition now_themes :: "pystr list" where
  "now_themes =
     [ustr ''authentic'', ustr ''integrated'', ustr ''empowered'', ustr ''aligned'', ustr ''whole'',
      ustr ''awakened'']"

text \<open>
  The loop over \<open>[collapse, build, now]\<close>: the first theme of each text that has one is
  appended to \<open>theme_chain\<close>.
\<close>

fun theme_chain_loop :: "unicode_db \<Rightarrow> pystr list \<Rightarrow> pystr list \<Rightarrow> pystr list" where
  "theme_chain_loop U [] theme_chain = theme_chain"
| "theme_chain_loop U (text # rest) theme_chain =
     (let themes = extract_themes U text in
      theme_chain_loop U rest
        (case themes of [] \<Rightarrow> theme_chain | t # _ \<Rightarrow> theme_chain @ [t]))"

definition generate_reflexion_dna ::
    "unicode_db \<Rightarrow> hexdigest \<Rightarrow> pystr \<Rightarrow> pystr \<Rightarrow> pystr \<Rightarrow> pystr \<Rightarrow> py_error + dna" where
  "generate_reflexion_dna U H collapse build now archetype =
     (case extract_core_theme U collapse collapse_themes of
        Inl e \<Rightarrow> Inl e
      | Inr collapse_root \<Rightarrow>
     (case extract_core_theme U build build_themes of
        Inl e \<Rightarrow> Inl e
      | Inr emergent_trait \<Rightarrow>
     (case extract_core_theme U now now_themes of
        Inl e \<Rightarrow> Inl e
      | Inr final_state \<Rightarrow>
     (let theme_chain = theme_chain_loop U [collapse, build, now] [] in
      case generate_transformation_hash H collapse build now of
        Inl e \<Rightarrow> Inl e
      | Inr h \<Rightarrow>
          Inr \<lparr>dna_collapse_root = collapse_root,
               dna_emergent_trait = emergent_trait,
               dna_final_state = final_state,
               dna_archetype = (if archetype \<noteq> [] then archetype else ustr ''wanderer''),
               dna_theme_chain = theme_chain,
               dna_transformation_hash = h\<rparr>))))"

section \<open>Share code\<close>

text \<open>
  \<open>timestamp\<close> stands for the integer \<open>int(timestamp.timestamp())\<close>, the seconds since
  the Unix epoch; the conversion of a \<open>datetime\<close> to that integer is not modelled.
\<close>

definition generate_share_code :: "unicode_db \<Rightarrow> pystr \<Rightarrow> pystr \<Rightarrow> int \<Rightarrow> pystr" where
  "generate_share_code U reflection_id archetype timestamp =
     (let arch_prefix = (if archetype \<noteq> [] then py_upper U (slice_to 3 archetype)
                         else ustr ''WND'');
          time_component = slice_last 4 (py_str_int timestamp);
          id_component = py_upper U (slice_to 4 reflection_id);
          sigil = arch_prefix @ ustr ''-'' @ time_component @ ustr ''-'' @ id_component
      in sigil)"

section \<open>Narrative\<close>

text \<open>The two bracket glyphs of the section headers, as the code points of the source file.\<close>

definition LB :: pystr where
  "LB = [0x201E, 0xC4, 0xEA]"

definition RB :: pystr where
  "RB = [0x201E, 0xC4, 0xEB]"

definition collapse_section :: "pystr \<Rightarrow> pystr" where
  "collapse_section collapse =
     LB @ ustr '' COLLAPSE '' @ RB @ NL @
     ustr ''In the depths of dissolution, you faced the void:'' @ NL @
     py_strip collapse"

definition build_section :: "pystr \<Rightarrow> pystr" where
  "build_section build =
     NL @ LB @ ustr '' COMPRESSION '' @ RB @ NL @
     ustr ''From the fragments, you forged something new:'' @ NL @
     py_strip build"

definition now_section :: "pystr \<Rightarrow> pystr" where
  "now_section now =
     NL @ LB @ ustr '' CONVERGENCE '' @ RB @ NL @
     ustr ''Now, you stand transformed:'' @ NL @
     py_strip now"

definition archetype_section :: "unicode_db \<Rightarrow> pystr \<Rightarrow> archetype_def \<Rightarrow> pystr" where
  "archetype_section U archetype arch_data =
     NL @ LB @ ustr '' ARCHETYPE '' @ RB @ NL @ ustr ''You embody the '' @ py_title U archetype @
     ustr '': '' @ description arch_data @ NL @ NL @ quote arch_data"

definition crystallizing_section :: pystr where
  "crystallizing_section =
     NL @ LB @ ustr '' ARCHETYPE '' @ RB @ NL @
     ustr ''Your archetype is still crystallizing in the cosmic forge''"

text \<open>
  \<open>if arch_data:\<close> tests a dictionary for being non-empty; every entry of the catalog
  has four keys, so the test fails exactly when \<open>get\<close> returned \<open>None\<close>.
\<close>

definition generate_narrative :: "unicode_db \<Rightarrow> pystr \<Rightarrow> pystr \<Rightarrow> pystr \<Rightarrow> pystr \<Rightarrow> pystr" where
  "generate_narrative U collapse build now archetype =
     (let sections = [];
          sections = sections @ [collapse_section collapse];
          sections = sections @ [build_section build];
          sections = sections @ [now_section now];
          sections =
            (if archetype \<noteq> [] then
               (case ARCHETYPES_get (py_lower U archetype) of
                  Some arch_data \<Rightarrow> sections @ [archetype_section U archetype arch_data]
                | None \<Rightarrow> sections @ [crystallizing_section])
             else sections)
      in py_join (NL @ NL) sections)"

section \<open>Compressed summary\<close>

definition stop_words :: "pystr list" where
  "stop_words =
    [ustr ''the'', ustr ''a'', ustr ''an'', ustr ''and'', ustr ''or'', ustr ''but'',
     ustr ''in'', ustr ''on'', ustr ''at'', ustr ''to'', ustr ''for'', ustr ''of'',
     ustr ''with'', ustr ''by'', ustr ''from'', ustr ''was'', ustr ''were'', ustr ''been'',
     ustr ''be'', ustr ''have'', ustr ''has'', ustr ''had'', ustr ''do'', ustr ''does'',
     ustr ''did'', ustr ''will'', ustr ''would'', ustr ''could'', ustr ''should'',
     ustr ''may'', ustr ''might'', ustr ''must'', ustr ''can'', ustr ''is'', ustr ''are'',
     ustr ''am'', ustr ''it'', ustr ''i'', ustr ''you'', ustr ''he'', ustr ''she'',
     ustr ''they'', ustr ''we'', ustr ''me'', ustr ''him'', ustr ''her'', ustr ''them'',
     ustr ''my'', ustr ''your'', ustr ''his'', ustr ''its'', ustr ''our'', ustr ''their'']"

definition extract_keywords :: "unicode_db \<Rightarrow> pystr \<Rightarrow> pystr" where
  "extract_keywords U text =
     (let words = py_split (py_lower U text);
          keywords = filter (\<lambda>w. w \<notin> set stop_words \<and> length w > 3) words
      in if keywords \<noteq> [] then py_join (ustr '' '') (slice_to 3 keywords)
         else ustr ''the unnamed'')"

text \<open>
  The loop shared by \<open>get_lost_element\<close>, \<open>get_emergent_quality\<close> and
  \<open>get_essential_nature\<close>: the first pattern found in the lowercased text.
\<close>

fun pattern_loop :: "pystr \<Rightarrow> pystr list \<Rightarrow> pystr option" where
  "pattern_loop text_lower [] = None"
| "pattern_loop text_lower (pattern # rest) =
     (if py_in pattern text_lower then Some pattern else pattern_loop text_lower rest)"

definition get_lost_element :: "unicode_db \<Rightarrow> pystr \<Rightarrow> pystr" where
  "get_lost_element U collapse_text =
     (let patterns = [ustr ''identity'', ustr ''certainty'', ustr ''control'', ustr ''belonging'',
                      ustr ''purpose'', ustr ''self'']
      in case pattern_loop (py_lower U collapse_text) patterns of
           Some pattern \<Rightarrow> pattern
         | None \<Rightarrow> ustr ''stability'')"

definition get_emergent_quality :: "unicode_db \<Rightarrow> pystr \<Rightarrow> pystr" where
  "get_emergent_quality U build_text =
     (let patterns = [ustr ''strength'', ustr ''wisdom'', ustr ''resilience'',
                      ustr ''understanding'', ustr ''compassion'', ustr ''power'', ustr ''clarity'']
      in case pattern_loop (py_lower U build_text) patterns of
           Some pattern \<Rightarrow> pattern
         | None \<Rightarrow> ustr ''new foundations'')"

definition get_essential_nature :: "unicode_db \<Rightarrow> pystr \<Rightarrow> pystr" where
  "get_essential_nature U now_text =
     (let patterns = [ustr ''authenticity'', ustr ''wholeness'', ustr ''integration'',
                      ustr ''transformation'', ustr ''truth'', ustr ''freedom'']
      in case pattern_loop (py_lower U now_text) patterns of
           Some pattern \<Rightarrow> pattern
         | None \<Rightarrow> ustr ''irreducible essence'')"

text \<open>
  The result dictionary is the list of its items in insertion order. \<open>ARCHETYPES[archetype]\<close>
  raises \<open>KeyError\<close> on a missing key.
\<close>

definition generate_compressed_summary ::
    "unicode_db \<Rightarrow> pystr \<Rightarrow> pystr \<Rightarrow> pystr \<Rightarrow> pystr \<Rightarrow> py_error + (pystr \<times> pystr) list" where
  "generate_compressed_summary U collapse build now archetype =
     (let collapse_keywords = extract_keywords U collapse;
          build_keywords = extract_keywords U build;
          now_keywords = extract_keywords U now;
          compressed =
            [(ustr ''Collapse'',
              ustr ''The dissolution began when '' @ collapse_keywords @
              ustr '' shattered the illusion of '' @ get_lost_element U collapse),
             (ustr ''Compression'',
              ustr ''Through '' @ build_keywords @ ustr '', the fragments crystallized into '' @
              get_emergent_quality U build),
             (ustr ''Convergence'',
              ustr ''Now standing as '' @ now_keywords @ ustr '', embodying the truth of '' @
              get_essential_nature U now)]
      in if archetype \<noteq> [] \<and> in_ARCHETYPES archetype then
           (case ARCHETYPES_get archetype of
              None \<Rightarrow> Inl KeyError
            | Some arch_data \<Rightarrow>
                Inr (compressed @
                  [(ustr ''Archetypal_Pattern'',
                    ustr ''Walking the '' @ archetype @ [39] @ ustr ''s path: '' @
                    description arch_data)]))
         else Inr compressed)"

section \<open>The notions of the specification\<close>

text \<open>
  These definitions follow the words of the specification, not the code. A string occurs
  case-insensitively in a text when its lowercase form is a contiguous part of the
  lowercase form of the text.
\<close>

definition occurs_ci :: "unicode_db \<Rightarrow> pystr \<Rightarrow> pystr \<Rightarrow> bool" where
  "occurs_ci U needle text = sublist (py_lower U needle) (py_lower U text)"

fun core_theme_spec :: "unicode_db \<Rightarrow> pystr \<Rightarrow> pystr list \<Rightarrow> pystr option" where
  "core_theme_spec U text [] = None"
| "core_theme_spec U text (first # rest) =
     (case List.find (\<lambda>theme. occurs_ci U theme text) (first # rest) of
        Some theme \<Rightarrow> Some theme
      | None \<Rightarrow> Some first)"

definition extract_themes_spec :: "unicode_db \<Rightarrow> pystr \<Rightarrow> pystr list" where
  "extract_themes_spec U text =
     take 3 (map fst (filter (\<lambda>(label, triggers). \<exists>k \<in> set triggers. occurs_ci U k text)
                        theme_words))"

definition is_text :: "pystr \<Rightarrow> bool" where
  "is_text s = list_all (\<lambda>c. c < 0xD800 \<or> (0xDFFF < c \<and> c < 0x110000)) s"

definition share_code_spec :: "unicode_db \<Rightarrow> pystr \<Rightarrow> pystr \<Rightarrow> int \<Rightarrow> pystr" where
  "share_code_spec U reflection_id archetype timestamp =
     (if archetype = [] then ustr ''WND'' else py_upper U (take 3 archetype))
     @ ustr ''-'' @ rev (take 4 (rev (py_str_int timestamp)))
     @ ustr ''-'' @ py_upper U (take 4 reflection_id)"

text \<open>
  The three phase sections of the narrative in their fixed order, each a header line, the
  lead-in sentence and the trimmed text, with the separator between them.
\<close>

definition phase_sections :: "pystr \<Rightarrow> pystr \<Rightarrow> pystr \<Rightarrow> pystr" where
  "phase_sections collapse build now =
     LB @ ustr '' COLLAPSE '' @ RB @ NL @
     ustr ''In the depths of dissolution, you faced the void:'' @ NL @ py_strip collapse
     @ NL @ NL @
     NL @ LB @ ustr '' COMPRESSION '' @ RB @ NL @
     ustr ''From the fragments, you forged something new:'' @ NL @ py_strip build
     @ NL @ NL @
     NL @ LB @ ustr '' CONVERGENCE '' @ RB @ NL @
     ustr ''Now, you stand transformed:'' @ NL @ py_strip now"

definition archetype_header :: pystr where
  "archetype_header = NL @ NL @ NL @ LB @ ustr '' ARCHETYPE '' @ RB @ NL"

text \<open>The keyword phrase, in the words of the specification.\<close>

definition keywords_spec :: "unicode_db \<Rightarrow> pystr \<Rightarrow> pystr" where
  "keywords_spec U text =
     (let tokens = py_split (py_lower U text);
          survivors = filter (\<lambda>w. \<not> (w \<in> set stop_words \<or> length w \<le> 3)) tokens
      in if survivors = [] then ustr ''the unnamed''
         else py_join (ustr '' '') (take 3 survivors))"

section \<open>Properties of the string operations\<close>

lemma py_in_iff_sublist: "py_in needle hay = sublist needle hay"
  by (induction hay) (auto simp: sublist_Cons_right)

lemma core_theme_loop_find:
  "core_theme_loop t themes = List.find (\<lambda>theme. py_in theme t) themes"
  by (induction themes) auto

lemma extract_core_theme_nonempty:
  assumes "themes \<noteq> []"
  shows "\<exists>theme. extract_core_theme U text themes = Inr theme \<and> theme \<in> set themes
           \<and> (py_in theme (py_lower U text) \<or> theme = hd themes)"
proof (cases "List.find (\<lambda>theme. py_in theme (py_lower U text)) themes")
  case None
  with assms show ?thesis
    by (cases themes) (auto simp: extract_core_theme_def core_theme_loop_find)
next
  case (Some th)
  then have "py_in th (py_lower U text)" "th \<in> set themes"
    by (auto simp: find_Some_iff)
  with Some show ?thesis
    by (auto simp: extract_core_theme_def core_theme_loop_find)
qed

lemma slice_last_rev: "slice_last n s = rev (take n (rev s))"
  by (simp add: slice_last_def rev_take)

section \<open>Share code\<close>

text \<open>
  C7: for every reflection identifier, archetype and timestamp, the share code is the
  prefix, the time component and the identifier component joined by hyphens: the prefix
  is the uppercased first three characters of the archetype, or \<open>WND\<close> for the empty
  archetype; the time component is the last four characters of the decimal epoch seconds;
  the identifier component is the uppercased first four characters of the identifier.
  The identifier \<open>abcd1234\<close> with archetype \<open>Phoenix\<close> at 1700000000 gives
  \<open>PHO-0000-ABCD\<close>.
\<close>

theorem share_code_format:
  "generate_share_code U reflection_id archetype timestamp
     = share_code_spec U reflection_id archetype timestamp
   \<and> generate_share_code U (ustr ''abcd1234'') (ustr ''Phoenix'') 1700000000
     = ustr ''PHO-0000-ABCD''"
proof
  show "generate_share_code U reflection_id archetype timestamp
     = share_code_spec U reflection_id archetype timestamp"
    by (simp add: generate_share_code_def share_code_spec_def slice_last_rev slice_to_def)
  show "generate_share_code U (ustr ''abcd1234'') (ustr ''Phoenix'') 1700000000
     = ustr ''PHO-0000-ABCD''"
    by (simp add: generate_share_code_def py_upper_def is_ascii_def ascii_upper_def
        slice_to_def slice_last_def py_str_int_def ustr_def)
qed

theorem share_code_format_witness:
  "share_code_spec ascii_db (ustr ''abcd1234'') [] 1700000000 = ustr ''WND-0000-ABCD''"
  using share_code_format [of ascii_db "ustr ''abcd1234''" "[]" 1700000000]
  by (simp add: generate_share_code_def py_upper_def is_ascii_def ascii_upper_def
        slice_to_def slice_last_def py_str_int_def ustr_def)

section \<open>Core theme extraction\<close>

lemma occurs_ci_lowercase:
  "py_lower U needle = needle \<Longrightarrow> occurs_ci U needle text = py_in needle (py_lower U text)"
  by (simp add: occurs_ci_def py_in_iff_sublist)

text \<open>
  C2, as stated: for every text and every non-empty theme list, \<open>extract_core_theme\<close>
  returns the first element of the list that occurs case-insensitively in the text. The
  code lowercases the text but not the themes, so a theme with an uppercase letter is
  never found: in \<open>I value Trust\<close> the theme \<open>Trust\<close> occurs and \<open>Control\<close> does not,
  yet the fallback \<open>Control\<close> is returned.
\<close>

theorem extract_core_theme_mixed_case_counterexample:
  "extract_core_theme ascii_db (ustr ''I value Trust'') [ustr ''Control'', ustr ''Trust'']
     = Inr (ustr ''Control'')
   \<and> \<not> occurs_ci ascii_db (ustr ''Control'') (ustr ''I value Trust'')
   \<and> occurs_ci ascii_db (ustr ''Trust'') (ustr ''I value Trust'')
   \<and> core_theme_spec ascii_db (ustr ''I value Trust'') [ustr ''Control'', ustr ''Trust'']
     = Some (ustr ''Trust'')"
  by (simp add: extract_core_theme_def occurs_ci_def py_in_iff_sublist [symmetric]
      py_lower_def is_ascii_def ascii_lower_def ustr_def)

text \<open>
  C2, amended: for every text and every non-empty theme list whose elements are in
  lowercase (unchanged by lowercasing), \<open>extract_core_theme\<close> returns the first element
  of the list, in list order, that occurs case-insensitively in the text, and the first
  element of the list when none occurs; the result is an element of the list, never an
  error.
\<close>

theorem extract_core_theme_lowercase_themes:
  assumes "themes \<noteq> []" and "\<forall>theme \<in> set themes. py_lower U theme = theme"
  shows "\<exists>theme. extract_core_theme U text themes = Inr theme
           \<and> core_theme_spec U text themes = Some theme \<and> theme \<in> set themes"
proof -
  have same: "List.find (\<lambda>theme. occurs_ci U theme text) themes
      = List.find (\<lambda>theme. py_in theme (py_lower U text)) themes"
    using assms(2) by (intro find_cong) (auto simp: occurs_ci_lowercase)
  obtain first rest where themes: "themes = first # rest"
    using assms(1) by (cases themes) auto
  show ?thesis
  proof (cases "List.find (\<lambda>theme. py_in theme (py_lower U text)) themes")
    case None
    with same themes show ?thesis
      by (simp add: extract_core_theme_def core_theme_loop_find)
  next
    case (Some th)
    then have "th \<in> set themes" by (auto simp: find_Some_iff)
    with Some same themes show ?thesis
      by (simp add: extract_core_theme_def core_theme_loop_find)
  qed
qed

theorem extract_core_theme_lowercase_themes_witness:
  "extract_core_theme ascii_db (ustr ''I lost my identity when they betrayed my Trust'')
     [ustr ''control'', ustr ''trust'', ustr ''identity''] = Inr (ustr ''trust'')
   \<and> core_theme_spec ascii_db (ustr ''I lost my identity when they betrayed my Trust'')
     [ustr ''control'', ustr ''trust'', ustr ''identity''] = Some (ustr ''trust'')"
proof -
  let ?themes = "[ustr ''control'', ustr ''trust'', ustr ''identity'']"
  let ?text = "ustr ''I lost my identity when they betrayed my Trust''"
  have ne: "?themes \<noteq> []" by simp
  have low: "\<forall>theme \<in> set ?themes. py_lower ascii_db theme = theme"
    by (simp add: py_lower_def is_ascii_def ascii_lower_def ustr_def)
  have code: "extract_core_theme ascii_db ?text ?themes = Inr (ustr ''trust'')"
    by (simp add: extract_core_theme_def py_lower_def is_ascii_def ascii_lower_def ustr_def)
  from extract_core_theme_lowercase_themes [OF ne low, of ?text] code
  show ?thesis by auto
qed

section \<open>Reflexion DNA: totality\<close>

text \<open>
  A text is a string of Unicode scalar values: no surrogate code point. Every text has a
  UTF-8 encoding, and the encoding error is the only error of the hash.
\<close>

lemma utf8_char_scalar:
  "c < 0xD800 \<or> (0xDFFF < c \<and> c < 0x110000) \<Longrightarrow> \<exists>bs. utf8_char c = Inr bs"
  by (auto simp: utf8_char_def)

lemma py_encode_text: "is_text s \<Longrightarrow> \<exists>bs. py_encode s = Inr bs"
proof (induction s)
  case Nil
  then show ?case by simp
next
  case (Cons c cs)
  then obtain bs rest where "utf8_char c = Inr bs" "py_encode cs = Inr rest"
    using utf8_char_scalar [of c] by (auto simp: is_text_def)
  then show ?case by simp
qed

lemma is_text_take: "is_text s \<Longrightarrow> is_text (take n s)"
  by (auto simp: is_text_def list_all_iff dest: in_set_takeD)

lemma is_text_append: "is_text (s @ t) = (is_text s \<and> is_text t)"
  by (simp add: is_text_def)

lemma transformation_hash_text:
  assumes "is_text collapse" "is_text build" "is_text now"
  shows "\<exists>h. generate_transformation_hash H collapse build now = Inr h"
proof -
  have "is_text (take 50 collapse @ take 50 build @ take 50 now)"
    using assms by (simp add: is_text_append is_text_take)
  then obtain bs where "py_encode (take 50 collapse @ take 50 build @ take 50 now) = Inr bs"
    using py_encode_text by blast
  then show ?thesis
    by (simp add: generate_transformation_hash_def slice_to_def)
qed

lemma collapse_themes_nonempty: "collapse_themes \<noteq> []"
  by (simp add: collapse_themes_def)

lemma build_themes_nonempty: "build_themes \<noteq> []"
  by (simp add: build_themes_def)

lemma now_themes_nonempty: "now_themes \<noteq> []"
  by (simp add: now_themes_def)

lemma generate_reflexion_dna_unfold:
  "\<exists>collapse_root \<in> set collapse_themes. \<exists>emergent_trait \<in> set build_themes.
   \<exists>final_state \<in> set now_themes.
     extract_core_theme U collapse collapse_themes = Inr collapse_root
   \<and> extract_core_theme U build build_themes = Inr emergent_trait
   \<and> extract_core_theme U now now_themes = Inr final_state
   \<and> generate_reflexion_dna U H collapse build now archetype =
       (case generate_transformation_hash H collapse build now of
          Inl e \<Rightarrow> Inl e
        | Inr h \<Rightarrow>
            Inr \<lparr>dna_collapse_root = collapse_root,
                 dna_emergent_trait = emergent_trait,
                 dna_final_state = final_state,
                 dna_archetype = (if archetype \<noteq> [] then archetype else ustr ''wanderer''),
                 dna_theme_chain = theme_chain_loop U [collapse, build, now] [],
                 dna_transformation_hash = h\<rparr>)"
proof -
  obtain cr where cr: "extract_core_theme U collapse collapse_themes = Inr cr"
      "cr \<in> set collapse_themes"
    using extract_core_theme_nonempty [OF collapse_themes_nonempty] by blast
  obtain et where et: "extract_core_theme U build build_themes = Inr et"
      "et \<in> set build_themes"
    using extract_core_theme_nonempty [OF build_themes_nonempty] by blast
  obtain fs where fs: "extract_core_theme U now now_themes = Inr fs"
      "fs \<in> set now_themes"
    using extract_core_theme_nonempty [OF now_themes_nonempty] by blast
  show ?thesis
    using cr et fs
    by (auto simp: generate_reflexion_dna_def Let_def simp del: theme_chain_loop.simps)
qed

lemma utf8_char_error: "utf8_char c = Inl e \<Longrightarrow> e = UnicodeEncodeError"
  by (auto simp: utf8_char_def split: if_splits)

lemma py_encode_error: "py_encode s = Inl e \<Longrightarrow> e = UnicodeEncodeError"
  by (induction s arbitrary: e) (auto split: sum.splits dest: utf8_char_error)

lemma transformation_hash_error:
  "generate_transformation_hash H collapse build now = Inl e \<Longrightarrow> e = UnicodeEncodeError"
  by (auto simp: generate_transformation_hash_def split: sum.splits dest: py_encode_error)

text \<open>
  C10: for every text, \<open>extract_core_theme\<close> on each of the three fixed six-element
  lists returns an element of that list, so its \<open>IndexError\<close> branch is never the
  result of \<open>generate_reflexion_dna\<close>; every DNA that is returned has its
  \<open>collapse_root\<close>, \<open>emergent_trait\<close> and \<open>final_state\<close> in the respective list; and
  for texts \<open>generate_reflexion_dna\<close> returns a DNA. (A string that holds a surrogate
  code point among the hashed characters is not a text: there \<open>encode\<close> raises.)
\<close>

theorem dna_core_themes_in_lists:
  "(\<exists>theme \<in> set collapse_themes. extract_core_theme U collapse collapse_themes = Inr theme)
   \<and> (\<exists>theme \<in> set build_themes. extract_core_theme U build build_themes = Inr theme)
   \<and> (\<exists>theme \<in> set now_themes. extract_core_theme U now now_themes = Inr theme)
   \<and> length collapse_themes = 6 \<and> length build_themes = 6 \<and> length now_themes = 6
   \<and> generate_reflexion_dna U H collapse build now archetype \<noteq> Inl IndexError
   \<and> (\<forall>d. generate_reflexion_dna U H collapse build now archetype = Inr d \<longrightarrow>
          dna_collapse_root d \<in> set collapse_themes
        \<and> dna_emergent_trait d \<in> set build_themes
        \<and> dna_final_state d \<in> set now_themes)
   \<and> (is_text collapse \<and> is_text build \<and> is_text now \<longrightarrow>
        (\<exists>d. generate_reflexion_dna U H collapse build now archetype = Inr d))"
proof -
  obtain cr et fs where
    cr: "cr \<in> set collapse_themes" "extract_core_theme U collapse collapse_themes = Inr cr" and
    et: "et \<in> set build_themes" "extract_core_theme U build build_themes = Inr et" and
    fs: "fs \<in> set now_themes" "extract_core_theme U now now_themes = Inr fs" and
    dna: "generate_reflexion_dna U H collapse build now archetype =
       (case generate_transformation_hash H collapse build now of
          Inl e \<Rightarrow> Inl e
        | Inr h \<Rightarrow>
            Inr \<lparr>dna_collapse_root = cr,
                 dna_emergent_trait = et,
                 dna_final_state = fs,
                 dna_archetype = (if archetype \<noteq> [] then archetype else ustr ''wanderer''),
                 dna_theme_chain = theme_chain_loop U [collapse, build, now] [],
                 dna_transformation_hash = h\<rparr>)"
    using generate_reflexion_dna_unfold [of U collapse build now H archetype] by blast
  have lens: "length collapse_themes = 6 \<and> length build_themes = 6 \<and> length now_themes = 6"
    by (simp add: collapse_themes_def build_themes_def now_themes_def)
  have no_index: "generate_reflexion_dna U H collapse build now archetype \<noteq> Inl IndexError"
    using transformation_hash_error [of H collapse build now]
    by (auto simp: dna split: sum.splits)
  have fields: "\<forall>d. generate_reflexion_dna U H collapse build now archetype = Inr d \<longrightarrow>
          dna_collapse_root d \<in> set collapse_themes
        \<and> dna_emergent_trait d \<in> set build_themes
        \<and> dna_final_state d \<in> set now_themes"
    using cr(1) et(1) fs(1) by (auto simp: dna split: sum.splits)
  have returns: "is_text collapse \<and> is_text build \<and> is_text now \<longrightarrow>
        (\<exists>d. generate_reflexion_dna U H collapse build now archetype = Inr d)"
    using transformation_hash_text [of collapse build now H]
    by (auto simp: dna split: sum.splits)
  from cr et fs lens no_index fields returns show ?thesis by blast
qed

theorem dna_core_themes_in_lists_witness:
  "is_text (ustr ''I lost my identity when they betrayed my trust'')
   \<and> is_text (ustr ''I built resilience and found wisdom'')
   \<and> is_text (ustr ''I am authentic and whole'')
   \<and> (\<exists>d. generate_reflexion_dna ascii_db hex_dump
          (ustr ''I lost my identity when they betrayed my trust'')
          (ustr ''I built resilience and found wisdom'')
          (ustr ''I am authentic and whole'') (ustr ''phoenix'') = Inr d
        \<and> dna_collapse_root d \<in> set collapse_themes
        \<and> dna_emergent_trait d \<in> set build_themes
        \<and> dna_final_state d \<in> set now_themes)"
proof -
  let ?c = "ustr ''I lost my identity when they betrayed my trust''"
  let ?b = "ustr ''I built resilience and found wisdom''"
  let ?n = "ustr ''I am authentic and whole''"
  have enc: "is_text ?c \<and> is_text ?b \<and> is_text ?n"
    by (simp add: is_text_def ustr_def)
  note all = dna_core_themes_in_lists [of ascii_db ?c ?b ?n hex_dump "ustr ''phoenix''"]
  from all enc obtain d where
    "generate_reflexion_dna ascii_db hex_dump ?c ?b ?n (ustr ''phoenix'') = Inr d"
    by blast
  with all enc show ?thesis by blast
qed

section \<open>The transformation hash\<close>

lemma transformation_hash_take:
  "generate_transformation_hash H collapse build now =
     (case py_encode (take 50 collapse @ take 50 build @ take 50 now) of
        Inl e \<Rightarrow> Inl e
      | Inr bytes \<Rightarrow> Inr (take 12 (H bytes)))"
  by (simp add: generate_transformation_hash_def slice_to_def split: sum.splits)

lemma dna_hash_field:
  "map_sum id dna_transformation_hash (generate_reflexion_dna U H collapse build now archetype)
     = generate_transformation_hash H collapse build now"
proof -
  obtain cr et fs where
    "generate_reflexion_dna U H collapse build now archetype =
       (case generate_transformation_hash H collapse build now of
          Inl e \<Rightarrow> Inl e
        | Inr h \<Rightarrow>
            Inr \<lparr>dna_collapse_root = cr,
                 dna_emergent_trait = et,
                 dna_final_state = fs,
                 dna_archetype = (if archetype \<noteq> [] then archetype else ustr ''wanderer''),
                 dna_theme_chain = theme_chain_loop U [collapse, build, now] [],
                 dna_transformation_hash = h\<rparr>)"
    using generate_reflexion_dna_unfold [of U collapse build now H archetype] by blast
  then show ?thesis
    by (simp split: sum.splits)
qed

text \<open>
  C1: the hash is the first 12 characters of the hexadecimal digest of the UTF-8 encoding
  of the first 50 characters of collapse, of build and of now, concatenated without
  separators, and it is the \<open>transformation_hash\<close> field of the DNA (both fail together
  when the characters have no UTF-8 encoding). Inputs with the same 50-character prefixes
  have the same hash, and text appended after character 50 of any phase does not change
  it.
\<close>

theorem transformation_hash_prefixes:
  "generate_transformation_hash H collapse build now =
     (case py_encode (take 50 collapse @ take 50 build @ take 50 now) of
        Inl e \<Rightarrow> Inl e
      | Inr bytes \<Rightarrow> Inr (take 12 (H bytes)))
   \<and> map_sum id dna_transformation_hash
         (generate_reflexion_dna U H collapse build now archetype)
       = generate_transformation_hash H collapse build now
   \<and> (take 50 collapse = take 50 collapse' \<and> take 50 build = take 50 build'
        \<and> take 50 now = take 50 now' \<longrightarrow>
      generate_transformation_hash H collapse build now
        = generate_transformation_hash H collapse' build' now')
   \<and> (50 \<le> length collapse \<longrightarrow>
      generate_transformation_hash H (collapse @ extra) build now
        = generate_transformation_hash H collapse build now)
   \<and> (50 \<le> length build \<longrightarrow>
      generate_transformation_hash H collapse (build @ extra) now
        = generate_transformation_hash H collapse build now)
   \<and> (50 \<le> length now \<longrightarrow>
      generate_transformation_hash H collapse build (now @ extra)
        = generate_transformation_hash H collapse build now)"
  by (simp add: transformation_hash_take dna_hash_field)

theorem transformation_hash_prefixes_witness:
  "50 \<le> length (ustr ''Built resilience through radical acceptance of uncertainty'')
   \<and> generate_transformation_hash hex_dump (ustr ''It fell apart'')
        (ustr ''Built resilience through radical acceptance of uncertainty'' @ ustr '' and extra'')
        (ustr ''I am whole'')
     = generate_transformation_hash hex_dump (ustr ''It fell apart'')
        (ustr ''Built resilience through radical acceptance of uncertainty'')
        (ustr ''I am whole'')"
proof -
  let ?b = "ustr ''Built resilience through radical acceptance of uncertainty''"
  have len: "50 \<le> length ?b"
    by (simp add: ustr_def)
  from transformation_hash_prefixes [of hex_dump "ustr ''It fell apart''" ?b "ustr ''I am whole''"
      ascii_db "[]" "ustr ''It fell apart''" ?b "ustr ''I am whole''" "ustr '' and extra''"] len
  show ?thesis by blast
qed

section \<open>Theme extraction: the table\<close>

lemma any_keyword_iff: "any_keyword t ks = (\<exists>k \<in> set ks. py_in k t)"
  by (induction ks) auto

lemma themes_loop_filter:
  "themes_loop t tw acc = acc @ map fst (filter (\<lambda>(label, ks). any_keyword t ks) tw)"
  by (induction t tw acc rule: themes_loop.induct) auto

lemma theme_triggers_lowercase:
  "(label, ks) \<in> set theme_words \<Longrightarrow> k \<in> set ks \<Longrightarrow> py_lower U k = k"
  by (auto simp: theme_words_def py_lower_def is_ascii_def ascii_lower_def ustr_def)

lemma theme_labels:
  "map fst theme_words =
     [ustr ''loss'', ustr ''betrayal'', ustr ''failure'', ustr ''awakening'', ustr ''rebuilding'',
      ustr ''transformation'', ustr ''freedom'', ustr ''integration'']"
  by (simp add: theme_words_def)

lemma theme_labels_distinct: "distinct (map fst theme_words)"
  by (simp add: theme_labels ustr_def)

lemma extract_themes_eq_spec: "extract_themes U text = extract_themes_spec U text"
proof -
  have same: "any_keyword (py_lower U text) ks = (\<exists>k \<in> set ks. occurs_ci U k text)"
    if "(label, ks) \<in> set theme_words" for label ks
  proof -
    have "occurs_ci U k text = py_in k (py_lower U text)" if "k \<in> set ks" for k
      using theme_triggers_lowercase [OF \<open>(label, ks) \<in> set theme_words\<close> that]
      by (rule occurs_ci_lowercase)
    then show ?thesis
      by (auto simp: any_keyword_iff)
  qed
  have "filter (\<lambda>(label, ks). any_keyword (py_lower U text) ks) theme_words
      = filter (\<lambda>(label, triggers). \<exists>k \<in> set triggers. occurs_ci U k text) theme_words"
    by (rule filter_cong [OF refl]) (auto simp: same)
  then show ?thesis
    by (simp add: extract_themes_def extract_themes_spec_def themes_loop_filter slice_to_def)
qed

text \<open>
  C3: \<open>extract_themes\<close> returns the labels of the table that have a trigger occurring
  case-insensitively in the text, in the order of the table, cut to the first three; the
  table has the eight labels loss, betrayal, failure, awakening, rebuilding,
  transformation, freedom, integration; no label is repeated; and the result is empty
  when no trigger occurs.
\<close>

theorem extract_themes_table_order:
  "extract_themes U text = extract_themes_spec U text
   \<and> map fst theme_words =
       [ustr ''loss'', ustr ''betrayal'', ustr ''failure'', ustr ''awakening'', ustr ''rebuilding'',
        ustr ''transformation'', ustr ''freedom'', ustr ''integration'']
   \<and> distinct (extract_themes U text)
   \<and> subseq (extract_themes U text) (map fst theme_words)
   \<and> length (extract_themes U text) \<le> 3
   \<and> ((\<forall>(label, triggers) \<in> set theme_words. \<forall>k \<in> set triggers. \<not> occurs_ci U k text)
        \<longrightarrow> extract_themes U text = [])"
proof -
  let ?P = "\<lambda>(label, triggers). \<exists>k \<in> set triggers. occurs_ci U k text"
  have spec: "extract_themes U text = take 3 (map fst (filter ?P theme_words))"
    by (simp add: extract_themes_eq_spec extract_themes_spec_def)
  have "distinct (map fst (filter ?P theme_words))"
    using theme_labels_distinct by (rule distinct_map_filter)
  then have dist: "distinct (extract_themes U text)"
    by (simp add: spec)
  have "subseq (map fst (filter ?P theme_words)) (map fst theme_words)"
    by (intro subseq_map subseq_filter_left)
  moreover have "subseq (take 3 (map fst (filter ?P theme_words))) (map fst (filter ?P theme_words))"
    by (rule prefix_imp_subseq) (rule take_is_prefix)
  ultimately have sub: "subseq (extract_themes U text) (map fst theme_words)"
    unfolding spec by (rule subseq_order.trans [rotated])
  have len: "length (extract_themes U text) \<le> 3"
    by (simp add: spec)
  have none: "(\<forall>(label, triggers) \<in> set theme_words. \<forall>k \<in> set triggers. \<not> occurs_ci U k text)
        \<longrightarrow> extract_themes U text = []"
    by (auto simp: spec filter_empty_conv)
  from extract_themes_eq_spec theme_labels dist sub len none show ?thesis
    by blast
qed

theorem extract_themes_table_order_witness:
  "extract_themes ascii_db (ustr ''Hello'') = []
   \<and> extract_themes_spec ascii_db (ustr ''I FAILED, then I saw I was free and whole'')
      = [ustr ''failure'', ustr ''awakening'', ustr ''freedom'']"
proof -
  have no: "\<forall>(label, triggers) \<in> set theme_words. \<forall>k \<in> set triggers.
       \<not> occurs_ci ascii_db k (ustr ''Hello'')"
    by (simp add: theme_words_def occurs_ci_def py_in_iff_sublist [symmetric]
        py_lower_def is_ascii_def ascii_lower_def ustr_def)
  have code: "extract_themes ascii_db (ustr ''I FAILED, then I saw I was free and whole'')
      = [ustr ''failure'', ustr ''awakening'', ustr ''freedom'']"
    by code_simp
  from extract_themes_table_order [of ascii_db "ustr ''Hello''"] no
  have "extract_themes ascii_db (ustr ''Hello'') = []"
    by blast
  moreover
  from extract_themes_table_order [of ascii_db "ustr ''I FAILED, then I saw I was free and whole''"]
    code
  have "extract_themes_spec ascii_db (ustr ''I FAILED, then I saw I was free and whole'')
      = [ustr ''failure'', ustr ''awakening'', ustr ''freedom'']"
    by simp
  ultimately show ?thesis
    by blast
qed

end
